theory Spec2Isabelle
  imports Main
begin

section \<open>Data model of the IP pool validator\<close>

text \<open>
  The theory embeds \<^verbatim>\<open>pkg/webhook/ippool/validator.go\<close>. Addresses are natural numbers
  (an address read as an integer), Go's \<^verbatim>\<open>error\<close> results are \<open>error option\<close>
  (\<open>None\<close> is \<^verbatim>\<open>nil\<close>), and a pair \<^verbatim>\<open>(value, error)\<close> is a sum with \<open>Inl\<close> the error.
\<close>

type_synonym ip = nat

text \<open>
  Modelled from the spec: the address range of the allocator library (type
  \<^verbatim>\<open>allocator.Range\<close>, not part of this file), "a contiguous address range
  \<open>{start, end}\<close>".
\<close>

record alloc_range =
  RangeStart :: ip
  RangeEnd :: ip

type_synonym RangeSet = "alloc_range list"

text \<open>The scope entry \<^verbatim>\<open>lbv1.Tuple\<close>, the selector \<^verbatim>\<open>lbv1.Selector\<close> and the probe
  \<^verbatim>\<open>ipam.Requirement\<close>, with the fields the validator reads and writes. The priority is
  an unsigned integer that the validator only compares with 0 and with another priority.\<close>

record tuple =
  Project :: string
  Namespace :: string
  GuestCluster :: string

record selector =
  Priority :: nat
  Network :: string
  Scope :: "tuple list"

record requirement =
  rNetwork :: string
  rProject :: string
  rNamespace :: string
  rCluster :: string

text \<open>
  The pool resource \<^verbatim>\<open>lbv1.IPPool\<close>. The range descriptors of \<^verbatim>\<open>Spec.Ranges\<close> are kept
  abstract (type \<open>'d\<close>): the validator only counts them and hands them to the converter.
  \<^verbatim>\<open>Status.Allocated\<close> is a Go map from address string to consumer; it is an association
  list with distinct keys whose order is the order in which one \<^verbatim>\<open>range\<close> loop visits the
  keys (Go leaves that order unspecified).
  Modelled from the spec: the global marker, "a boolean-valued label on a Pool"; the label
  key and value (\<^verbatim>\<open>utils.KeyGlobalIPPool\<close>, \<^verbatim>\<open>utils.ValueTrue\<close>) are not part of this file.
\<close>

record 'd IPPoolSpec =
  Ranges :: "'d list"
  Selector :: selector

record IPPoolStatus =
  Allocated :: "(string \<times> string) list"

record 'd IPPool =
  Name :: string
  DeletionTimestamp :: "nat option"
  GlobalIPPool :: bool
  Spec :: "'d IPPoolSpec"
  Status :: IPPoolStatus

text \<open>A \<^verbatim>\<open>runtime.Object\<close> handed to the validator: a pool, or an object of another type, on
  which the type assertion \<^verbatim>\<open>newObj.(*lbv1.IPPool)\<close> panics.\<close>

datatype 'd object = IPPoolObject "'d IPPool" | OtherObject

text \<open>The errors the validator returns, one constructor per message of the source.\<close>

datatype error =
    EmptyRangeError
  | RangeParseError string
  | ListError string
  | RangeOverlapError alloc_range alloc_range
  | RangeSetOverlapError RangeSet
  | InvalidAddressError string
  | AllocatedAddressExcludedError string
  | DuplicateGlobalPoolError string
  | SelfScopeOverlapError
  | InvalidSelectorError selector error
  | DuplicatePriorityError string
  | ScopeOverlapError string string string string
  | NonEmptyPoolDeletionError
  | CreateError string error
  | UpdateError string error
  | TypeAssertionPanic

text \<open>
  The pool repository \<^verbatim>\<open>ctllbv1.IPPoolCache\<close>: the stored pools, an optional failure of
  \<^verbatim>\<open>List\<close>, and the log of the reads made so far (each \<^verbatim>\<open>List\<close> call appends its filter),
  so that "no repository read" is a statement about the returned cache.
\<close>

datatype label_selector = Everything | GlobalIPPoolSet

record 'd IPPoolCache =
  pools :: "'d IPPool list"
  listErr :: "string option"
  reads :: "label_selector list"

section \<open>Collaborators outside the file\<close>

text \<open>Modelled from the spec: \<^verbatim>\<open>isGlobalIPPool\<close> (same package, another file), the test of
  the global marker.\<close>

definition isGlobalIPPool :: "'d IPPool \<Rightarrow> bool" where
  "isGlobalIPPool pool \<longleftrightarrow> GlobalIPPool pool"

text \<open>Modelled from the spec: the repository contract "\<open>List(filter) \<rightarrow>\<close> sequence of Pool,
  used with select-all and select-pools-marked-global filters".\<close>

fun label_matches :: "label_selector \<Rightarrow> 'd IPPool \<Rightarrow> bool" where
  "label_matches Everything p = True"
| "label_matches GlobalIPPoolSet p = GlobalIPPool p"

definition ipPoolCache_List ::
  "'d IPPoolCache \<Rightarrow> label_selector \<Rightarrow> (error + 'd IPPool list) \<times> 'd IPPoolCache" where
  "ipPoolCache_List c sel =
     ((case listErr c of
         Some e \<Rightarrow> Inl (ListError e)
       | None \<Rightarrow> Inr (filter (label_matches sel) (pools c))),
      c\<lparr>reads := reads c @ [sel]\<rparr>)"

text \<open>Modelled from the spec: containment and overlap of the Range Model (allocator
  library): a range contains the addresses from its start to its end, two ranges overlap
  when they "share at least one address", a range set contains an address that one of its
  ranges contains, and two range sets overlap when a range of one overlaps a range of the
  other.\<close>

definition Contains_Range :: "alloc_range \<Rightarrow> ip \<Rightarrow> bool" where
  "Contains_Range r a \<longleftrightarrow> RangeStart r \<le> a \<and> a \<le> RangeEnd r"

definition Overlaps_Range :: "alloc_range \<Rightarrow> alloc_range \<Rightarrow> bool" where
  "Overlaps_Range r r1 \<longleftrightarrow>
     max (RangeStart r) (RangeStart r1) \<le> min (RangeEnd r) (RangeEnd r1)"

definition Contains_RangeSet :: "RangeSet \<Rightarrow> ip \<Rightarrow> bool" where
  "Contains_RangeSet s a \<longleftrightarrow> list_ex (\<lambda>r. Contains_Range r a) s"

definition Overlaps_RangeSet :: "RangeSet \<Rightarrow> RangeSet \<Rightarrow> bool" where
  "Overlaps_RangeSet s p1 \<longleftrightarrow> list_ex (\<lambda>r. list_ex (\<lambda>r1. Overlaps_Range r r1) p1) s"

text \<open>Modelled from the spec: the Selector Matcher \<^verbatim>\<open>ipam.NewMatcher(s).Matches(r)\<close>
  (package \<^verbatim>\<open>pkg/ipam\<close>, not part of this file): "A selector matches a requirement iff the
  selector's network equals the requirement's network (when the selector's network is
  non-empty) AND at least one entry in the selector's scope matches the requirement on
  every non-empty dimension of that entry (project/namespace/cluster), OR the scope list
  is empty (unconditional network-level match)." The network test applies to a selector
  with an empty scope list as well (the match is "network-level").\<close>

definition tuple_matches :: "tuple \<Rightarrow> requirement \<Rightarrow> bool" where
  "tuple_matches t r \<longleftrightarrow>
     (Project t = [] \<or> Project t = rProject r) \<and>
     (Namespace t = [] \<or> Namespace t = rNamespace r) \<and>
     (GuestCluster t = [] \<or> GuestCluster t = rCluster r)"

definition Matches :: "selector \<Rightarrow> requirement \<Rightarrow> bool" where
  "Matches s r \<longleftrightarrow>
     (Network s = [] \<or> Network s = rNetwork r) \<and>
     (Scope s = [] \<or> list_ex (\<lambda>t. tuple_matches t r) (Scope s))"

section \<open>The validator\<close>

text \<open>
  Two collaborators are parameters of the functions below, so that every theorem holds
  for whatever they compute: \<open>conv\<close> is \<^verbatim>\<open>ipam.LBRangesToAllocatorRangeSet\<close> (range
  descriptors to a range set, or an error), and \<open>parseIP\<close> is \<^verbatim>\<open>net.ParseIP\<close> (\<open>None\<close>
  is Go's \<^verbatim>\<open>nil\<close> address).
\<close>

subsection \<open>\<^verbatim>\<open>getOtherPoolsRanges\<close>\<close>

fun otherRanges :: "('d list \<Rightarrow> error + RangeSet) \<Rightarrow> string \<Rightarrow> 'd IPPool list \<Rightarrow>
    RangeSet list \<Rightarrow> error + RangeSet list" where
  "otherRanges conv myName [] rangSets = Inr rangSets"
| "otherRanges conv myName (p # ps) rangSets =
     (if Name p \<noteq> myName then
        (case conv (Ranges (Spec p)) of
           Inl err \<Rightarrow> Inl err
         | Inr r \<Rightarrow> otherRanges conv myName ps (rangSets @ [r]))
      else otherRanges conv myName ps rangSets)"

definition getOtherPoolsRanges :: "('d list \<Rightarrow> error + RangeSet) \<Rightarrow> 'd IPPoolCache \<Rightarrow>
    string \<Rightarrow> (error + RangeSet list) \<times> 'd IPPoolCache" where
  "getOtherPoolsRanges conv i myName =
     (case ipPoolCache_List i Everything of
        (Inl err, i') \<Rightarrow> (Inl err, i')
      | (Inr ps, i') \<Rightarrow>
          (if length ps = 0 then (Inr [], i')
           else (otherRanges conv myName ps [], i')))"

subsection \<open>\<^verbatim>\<open>checkRange\<close>\<close>

text \<open>The inner loop compares \<open>r1\<close> with the ranges after it, the outer loop takes each
  range of the set in turn, the last loop compares the whole set with each other set.\<close>

fun checkRange_against :: "alloc_range \<Rightarrow> alloc_range list \<Rightarrow> error option" where
  "checkRange_against r1 [] = None"
| "checkRange_against r1 (r2 # rest) =
     (if Overlaps_Range r1 r2 then Some (RangeOverlapError r1 r2)
      else checkRange_against r1 rest)"

fun checkRange_self :: "RangeSet \<Rightarrow> error option" where
  "checkRange_self [] = None"
| "checkRange_self (r1 # rest) =
     (case checkRange_against r1 rest of
        Some err \<Rightarrow> Some err
      | None \<Rightarrow> checkRange_self rest)"

fun checkRange_others :: "RangeSet \<Rightarrow> RangeSet list \<Rightarrow> error option" where
  "checkRange_others r [] = None"
| "checkRange_others r (other # others) =
     (if Overlaps_RangeSet r other then Some (RangeSetOverlapError r)
      else checkRange_others r others)"

definition checkRange :: "RangeSet \<Rightarrow> RangeSet list \<Rightarrow> error option" where
  "checkRange r others =
     (case checkRange_self r of
        Some err \<Rightarrow> Some err
      | None \<Rightarrow> checkRange_others r others)"

subsection \<open>\<^verbatim>\<open>checkAllocated\<close>\<close>

fun checkAllocated :: "(string \<Rightarrow> ip option) \<Rightarrow> RangeSet \<Rightarrow> (string \<times> string) list \<Rightarrow>
    error option" where
  "checkAllocated parseIP rs [] = None"
| "checkAllocated parseIP rs ((ipStr, consumer) # allocated) =
     (case parseIP ipStr of
        None \<Rightarrow> Some (InvalidAddressError ipStr)
      | Some a \<Rightarrow>
          (if \<not> Contains_RangeSet rs a then Some (AllocatedAddressExcludedError ipStr)
           else checkAllocated parseIP rs allocated))"

subsection \<open>\<^verbatim>\<open>checkGlobalIPPool\<close>\<close>

fun globalLoop :: "'d IPPool \<Rightarrow> 'd IPPool list \<Rightarrow> error option" where
  "globalLoop pool [] = None"
| "globalLoop pool (p # ps) =
     (if Name p = Name pool then globalLoop pool ps
      else Some (DuplicateGlobalPoolError (Name p)))"

definition checkGlobalIPPool :: "'d IPPoolCache \<Rightarrow> 'd IPPool \<Rightarrow>
    error option \<times> 'd IPPoolCache" where
  "checkGlobalIPPool i pool =
     (case ipPoolCache_List i GlobalIPPoolSet of
        (Inl err, i') \<Rightarrow> (Some err, i')
      | (Inr ps, i') \<Rightarrow> (globalLoop pool ps, i'))"

subsection \<open>\<^verbatim>\<open>checkSelectorItself\<close>\<close>

definition requirementOf :: "string \<Rightarrow> tuple \<Rightarrow> requirement" where
  "requirementOf network t =
     \<lparr>rNetwork = network, rProject = Project t, rNamespace = Namespace t,
      rCluster = GuestCluster t\<rparr>"

text \<open>The loop over the scope list, at the entry \<open>t\<close> with the entries \<open>rest\<close> after it:
  \<open>rest\<close> is \<^verbatim>\<open>Scope[i+1:]\<close>, and \<open>rest = []\<close> exactly at the last index, where the source
  leaves \<^verbatim>\<open>s.Scope\<close> unset (empty).\<close>

fun selfLoop :: "selector \<Rightarrow> tuple list \<Rightarrow> error option" where
  "selfLoop sel [] = None"
| "selfLoop sel (t # rest) =
     (let r = requirementOf (Network sel) t;
          s = \<lparr>Priority = Priority sel, Network = Network sel,
               Scope = (if rest \<noteq> [] then rest else [])\<rparr>
      in if Matches s r then Some SelfScopeOverlapError else selfLoop sel rest)"

definition checkSelectorItself :: "'d IPPool \<Rightarrow> error option" where
  "checkSelectorItself pool = selfLoop (Selector (Spec pool)) (Scope (Selector (Spec pool)))"

subsection \<open>\<^verbatim>\<open>checkSelectorWithOthers\<close>\<close>

fun scopeLoop :: "'d IPPool \<Rightarrow> 'd IPPool \<Rightarrow> tuple list \<Rightarrow> error option" where
  "scopeLoop pool p [] = None"
| "scopeLoop pool p (t # ts) =
     (if Matches (Selector (Spec p)) (requirementOf (Network (Selector (Spec pool))) t)
      then Some (ScopeOverlapError (Name p) (Project t) (Namespace t) (GuestCluster t))
      else scopeLoop pool p ts)"

fun othersLoop :: "'d IPPool \<Rightarrow> 'd IPPool list \<Rightarrow> error option" where
  "othersLoop pool [] = None"
| "othersLoop pool (p # ps) =
     (if Name p = Name pool \<or> isGlobalIPPool p then othersLoop pool ps
      else if Priority (Selector (Spec p)) \<noteq> 0 \<and>
              Priority (Selector (Spec p)) = Priority (Selector (Spec pool))
        then Some (DuplicatePriorityError (Name p))
      else if Priority (Selector (Spec p)) = 0 \<and> Priority (Selector (Spec pool)) = 0
        then (case scopeLoop pool p (Scope (Selector (Spec pool))) of
                Some err \<Rightarrow> Some err
              | None \<Rightarrow> othersLoop pool ps)
      else othersLoop pool ps)"

definition checkSelectorWithOthers :: "'d IPPoolCache \<Rightarrow> 'd IPPool \<Rightarrow>
    error option \<times> 'd IPPoolCache" where
  "checkSelectorWithOthers i pool =
     (case ipPoolCache_List i Everything of
        (Inl err, i') \<Rightarrow> (Some err, i')
      | (Inr ps, i') \<Rightarrow> (othersLoop pool ps, i'))"

subsection \<open>\<^verbatim>\<open>checkSelector\<close>\<close>

definition checkSelector :: "'d IPPoolCache \<Rightarrow> 'd IPPool \<Rightarrow>
    error option \<times> 'd IPPoolCache" where
  "checkSelector i pool =
     (if isGlobalIPPool pool then checkGlobalIPPool i pool
      else (case checkSelectorItself pool of
              Some err \<Rightarrow> (Some (InvalidSelectorError (Selector (Spec pool)) err), i)
            | None \<Rightarrow> checkSelectorWithOthers i pool))"

subsection \<open>\<^verbatim>\<open>Create\<close>, \<^verbatim>\<open>Update\<close>, \<^verbatim>\<open>Delete\<close>\<close>

text \<open>Each entry point takes the admission request (unused by the source) and returns the
  verdict together with the repository after the reads it made.\<close>

fun Create :: "('d list \<Rightarrow> error + RangeSet) \<Rightarrow> 'd IPPoolCache \<Rightarrow> 'q \<Rightarrow> 'd object \<Rightarrow>
    error option \<times> 'd IPPoolCache" where
  "Create conv i req OtherObject = (Some TypeAssertionPanic, i)"
| "Create conv i req (IPPoolObject pool) =
     (if length (Ranges (Spec pool)) = 0
        then (Some (CreateError (Name pool) EmptyRangeError), i)
      else case conv (Ranges (Spec pool)) of
        Inl err \<Rightarrow> (Some (CreateError (Name pool) err), i)
      | Inr rs \<Rightarrow>
         (case getOtherPoolsRanges conv i (Name pool) of
            (Inl err, i1) \<Rightarrow> (Some (CreateError (Name pool) err), i1)
          | (Inr others, i1) \<Rightarrow>
             (case checkRange rs others of
                Some err \<Rightarrow> (Some (CreateError (Name pool) err), i1)
              | None \<Rightarrow>
                 (case checkSelector i1 pool of
                    (Some err, i2) \<Rightarrow> (Some (CreateError (Name pool) err), i2)
                  | (None, i2) \<Rightarrow> (None, i2)))))"

fun Update :: "('d list \<Rightarrow> error + RangeSet) \<Rightarrow> (string \<Rightarrow> ip option) \<Rightarrow> 'd IPPoolCache \<Rightarrow>
    'q \<Rightarrow> 'd object \<Rightarrow> 'd object \<Rightarrow> error option \<times> 'd IPPoolCache" where
  "Update conv parseIP i req oldObj OtherObject = (Some TypeAssertionPanic, i)"
| "Update conv parseIP i req oldObj (IPPoolObject pool) =
     (if DeletionTimestamp pool \<noteq> None then (None, i)
      else if length (Ranges (Spec pool)) = 0
        then (Some (UpdateError (Name pool) EmptyRangeError), i)
      else case conv (Ranges (Spec pool)) of
        Inl err \<Rightarrow> (Some (UpdateError (Name pool) err), i)
      | Inr rs \<Rightarrow>
         (case getOtherPoolsRanges conv i (Name pool) of
            (Inl err, i1) \<Rightarrow> (Some (UpdateError (Name pool) err), i1)
          | (Inr others, i1) \<Rightarrow>
             (case checkRange rs others of
                Some err \<Rightarrow> (Some (UpdateError (Name pool) err), i1)
              | None \<Rightarrow>
                 (case checkAllocated parseIP rs (Allocated (Status pool)) of
                    Some err \<Rightarrow> (Some (UpdateError (Name pool) err), i1)
                  | None \<Rightarrow>
                     (case checkSelector i1 pool of
                        (Some err, i2) \<Rightarrow> (Some (UpdateError (Name pool) err), i2)
                      | (None, i2) \<Rightarrow> (None, i2))))))"

fun Delete :: "'q \<Rightarrow> 'd object \<Rightarrow> error option" where
  "Delete req OtherObject = Some TypeAssertionPanic"
| "Delete req (IPPoolObject pool) =
     (if length (Allocated (Status pool)) \<noteq> 0 then Some NonEmptyPoolDeletionError
      else None)"

section \<open>Concrete inputs\<close>

text \<open>
  Inputs on which the theorems below are instantiated. Range descriptors are pairs of a
  first and a last address, which \<open>example_conv\<close> turns into ranges; \<open>example_parseIP\<close>
  agrees with \<^verbatim>\<open>net.ParseIP\<close> on the strings used here (\<^verbatim>\<open>10.0.0.5\<close> is
  \<open>167772165\<close>, and \<^verbatim>\<open>bad\<close> does not parse). All example pools are on the network
  \<^verbatim>\<open>vlan1\<close>.
\<close>

definition example_conv :: "(nat \<times> nat) list \<Rightarrow> error + RangeSet" where
  "example_conv ds = Inr (map (\<lambda>(s, e). \<lparr>RangeStart = s, RangeEnd = e\<rparr>) ds)"

definition example_parseIP :: "string \<Rightarrow> ip option" where
  "example_parseIP = map_of [(''10.0.0.5'', 167772165), (''10.0.0.99'', 167772259)]"

definition example_pool :: "string \<Rightarrow> bool \<Rightarrow> nat \<Rightarrow> tuple list \<Rightarrow> (nat \<times> nat) list \<Rightarrow>
    (string \<times> string) list \<Rightarrow> (nat \<times> nat) IPPool" where
  "example_pool n g prio scope ranges allocated =
     \<lparr>Name = n, DeletionTimestamp = None, GlobalIPPool = g,
      Spec = \<lparr>Ranges = ranges,
              Selector = \<lparr>Priority = prio, Network = ''vlan1'', Scope = scope\<rparr>\<rparr>,
      Status = \<lparr>Allocated = allocated\<rparr>\<rparr>"

definition example_cache :: "(nat \<times> nat) IPPool list \<Rightarrow> (nat \<times> nat) IPPoolCache" where
  "example_cache ps = \<lparr>pools = ps, listErr = None, reads = []\<rparr>"

lemmas example_defs = example_conv_def example_parseIP_def example_pool_def example_cache_def

lemmas eval_defs = example_defs getOtherPoolsRanges_def ipPoolCache_List_def checkRange_def
  Overlaps_Range_def Overlaps_RangeSet_def Contains_Range_def Contains_RangeSet_def
  checkSelector_def checkSelectorItself_def checkSelectorWithOthers_def checkGlobalIPPool_def
  isGlobalIPPool_def Matches_def tuple_matches_def requirementOf_def

section \<open>Auxiliary facts\<close>

lemma find_Some_set: "find P xs = Some x \<Longrightarrow> x \<in> set xs \<and> P x"
  by (induction xs) (auto split: if_splits)

lemma find_None_append: "find P xs = None \<Longrightarrow> find P (xs @ ys) = find P ys"
  by (induction xs) (auto split: if_splits)

text \<open>The executable overlap test is the spec's "share at least one address".\<close>

lemma Overlaps_Range_iff:
  "Overlaps_Range r r1 \<longleftrightarrow> (\<exists>a. Contains_Range r a \<and> Contains_Range r1 a)"
proof
  assume "Overlaps_Range r r1"
  then have "Contains_Range r (max (RangeStart r) (RangeStart r1)) \<and>
             Contains_Range r1 (max (RangeStart r) (RangeStart r1))"
    by (simp add: Overlaps_Range_def Contains_Range_def)
  then show "\<exists>a. Contains_Range r a \<and> Contains_Range r1 a" by blast
next
  assume "\<exists>a. Contains_Range r a \<and> Contains_Range r1 a"
  then show "Overlaps_Range r r1"
    by (auto simp: Overlaps_Range_def Contains_Range_def)
qed

lemma Overlaps_RangeSet_iff:
  "Overlaps_RangeSet s p1 \<longleftrightarrow> (\<exists>r\<in>set s. \<exists>r1\<in>set p1. Overlaps_Range r r1)"
  by (simp add: Overlaps_RangeSet_def list_ex_iff)

text \<open>A successful \<^verbatim>\<open>List\<close> with the two filters the validator uses.\<close>

lemma checkGlobalIPPool_ok:
  "listErr i = None \<Longrightarrow>
     checkGlobalIPPool i pool =
       (globalLoop pool (filter GlobalIPPool (pools i)),
        i\<lparr>reads := reads i @ [GlobalIPPoolSet]\<rparr>)"
proof -
  assume "listErr i = None"
  moreover have "label_matches GlobalIPPoolSet = (GlobalIPPool :: 'a IPPool \<Rightarrow> bool)"
    by (rule ext) simp
  ultimately show ?thesis
    by (simp add: checkGlobalIPPool_def ipPoolCache_List_def)
qed

lemma checkSelectorWithOthers_ok:
  "listErr i = None \<Longrightarrow>
     checkSelectorWithOthers i pool =
       (othersLoop pool (pools i), i\<lparr>reads := reads i @ [Everything]\<rparr>)"
proof -
  assume "listErr i = None"
  moreover have "filter (label_matches Everything) (pools i) = pools i"
    by (induction "pools i") auto
  ultimately show ?thesis
    by (simp add: checkSelectorWithOthers_def ipPoolCache_List_def)
qed

section \<open>Range check\<close>

lemma checkRange_against_None:
  "checkRange_against r1 rest = None \<longleftrightarrow> (\<forall>r2\<in>set rest. \<not> Overlaps_Range r1 r2)"
  by (induction rest) auto

lemma checkRange_against_Some:
  "checkRange_against r1 rest = Some e \<Longrightarrow>
     \<exists>k<length rest. Overlaps_Range r1 (rest ! k) \<and> e = RangeOverlapError r1 (rest ! k)"
proof (induction rest)
  case Nil
  then show ?case by simp
next
  case (Cons r2 rest)
  show ?case
  proof (cases "Overlaps_Range r1 r2")
    case True
    with Cons.prems have "e = RangeOverlapError r1 r2" by simp
    with True have "Overlaps_Range r1 ((r2 # rest) ! 0) \<and>
        e = RangeOverlapError r1 ((r2 # rest) ! 0)"
      by simp
    then show ?thesis by (intro exI[of _ 0]) simp
  next
    case False
    with Cons.prems have "checkRange_against r1 rest = Some e" by simp
    from Cons.IH[OF this] obtain k where "k < length rest"
      "Overlaps_Range r1 (rest ! k)" "e = RangeOverlapError r1 (rest ! k)" by blast
    then show ?thesis by (intro exI[of _ "Suc k"]) simp
  qed
qed

text \<open>An error of the self-check names a pair of positions \<open>i < j\<close> whose ranges overlap.\<close>

lemma checkRange_self_Some:
  "checkRange_self r = Some e \<Longrightarrow>
     \<exists>i j. i < j \<and> j < length r \<and> Overlaps_Range (r ! i) (r ! j) \<and>
           e = RangeOverlapError (r ! i) (r ! j)"
proof (induction r)
  case Nil
  then show ?case by simp
next
  case (Cons r1 rest)
  show ?case
  proof (cases "checkRange_against r1 rest")
    case None
    with Cons.prems have "checkRange_self rest = Some e" by simp
    from Cons.IH[OF this] obtain i j where "i < j" "j < length rest"
      "Overlaps_Range (rest ! i) (rest ! j)" "e = RangeOverlapError (rest ! i) (rest ! j)"
      by blast
    then show ?thesis
      by (intro exI[of _ "Suc i"] exI[of _ "Suc j"]) simp
  next
    case (Some e')
    with Cons.prems have "e' = e" by simp
    with Some checkRange_against_Some obtain k where "k < length rest"
      "Overlaps_Range r1 (rest ! k)" "e = RangeOverlapError r1 (rest ! k)" by blast
    then show ?thesis
      by (intro exI[of _ 0] exI[of _ "Suc k"]) simp
  qed
qed

text \<open>Every overlapping pair of positions makes the self-check fail.\<close>

lemma checkRange_self_detects:
  "i < j \<Longrightarrow> j < length r \<Longrightarrow> Overlaps_Range (r ! i) (r ! j) \<Longrightarrow> checkRange_self r \<noteq> None"
proof (induction r arbitrary: i j)
  case Nil
  then show ?case by simp
next
  case (Cons r1 rest)
  show ?case
  proof (cases i)
    case 0
    with Cons.prems obtain j' where j: "j = Suc j'" "j' < length rest"
      by (cases j) auto
    with 0 Cons.prems have "Overlaps_Range r1 (rest ! j')" by simp
    with j have "checkRange_against r1 rest \<noteq> None"
      by (auto simp: checkRange_against_None)
    then show ?thesis by (auto split: option.splits)
  next
    case (Suc i')
    with Cons.prems obtain j' where j: "j = Suc j'" "i' < j'" "j' < length rest"
      by (cases j) auto
    with Suc Cons.prems have "Overlaps_Range (rest ! i') (rest ! j')" by simp
    from Cons.IH[OF j(2,3) this] show ?thesis by (auto split: option.splits)
  qed
qed

lemma checkRange_others_None:
  "checkRange_others r others = None \<longleftrightarrow> (\<forall>other\<in>set others. \<not> Overlaps_RangeSet r other)"
  by (induction others) auto

text \<open>
  C4. If two ranges at distinct positions of the candidate set share an address,
  \<^verbatim>\<open>checkRange\<close> returns the overlap error that names two ranges of the set, at positions
  \<open>i' < j'\<close>, which share an address (the first such pair the loops meet), whatever the
  other sets are; a candidate of one range checked against no other set passes; and when
  no range of the candidate shares an address with a range of any other set, the
  cross-pool loop returns no error, so that the result is that of the self-check.
\<close>

theorem checkRange_overlap:
  "(i < j \<and> j < length r \<and> Contains_Range (r ! i) a \<and> Contains_Range (r ! j) a \<longrightarrow>
      (\<exists>i' j'. i' < j' \<and> j' < length r \<and>
          (\<exists>b. Contains_Range (r ! i') b \<and> Contains_Range (r ! j') b) \<and>
          checkRange r others = Some (RangeOverlapError (r ! i') (r ! j')))) \<and>
   checkRange [x] [] = None \<and>
   ((\<forall>other\<in>set others. \<forall>r1\<in>set r. \<forall>r2\<in>set other.
        \<not> (\<exists>b. Contains_Range r1 b \<and> Contains_Range r2 b)) \<longrightarrow>
      checkRange_others r others = None \<and> checkRange r others = checkRange_self r)"
proof (intro conjI impI)
  assume h: "i < j \<and> j < length r \<and> Contains_Range (r ! i) a \<and> Contains_Range (r ! j) a"
  then have "Overlaps_Range (r ! i) (r ! j)" by (auto simp: Overlaps_Range_iff)
  with h have "checkRange_self r \<noteq> None"
    using checkRange_self_detects[of i j r] by simp
  then obtain e where e: "checkRange_self r = Some e" by blast
  from checkRange_self_Some[OF this] obtain i' j' where
    "i' < j'" "j' < length r" "Overlaps_Range (r ! i') (r ! j')"
    "e = RangeOverlapError (r ! i') (r ! j')" by blast
  with e show "\<exists>i' j'. i' < j' \<and> j' < length r \<and>
          (\<exists>b. Contains_Range (r ! i') b \<and> Contains_Range (r ! j') b) \<and>
          checkRange r others = Some (RangeOverlapError (r ! i') (r ! j'))"
    by (auto simp: checkRange_def Overlaps_Range_iff)
next
  show "checkRange [x] [] = None" by (simp add: checkRange_def)
next
  assume d: "\<forall>other\<in>set others. \<forall>r1\<in>set r. \<forall>r2\<in>set other.
        \<not> (\<exists>b. Contains_Range r1 b \<and> Contains_Range r2 b)"
  then show "checkRange_others r others = None"
    by (simp add: checkRange_others_None Overlaps_RangeSet_iff Overlaps_Range_iff)
  then show "checkRange r others = checkRange_self r"
    by (simp add: checkRange_def split: option.splits)
qed

theorem checkRange_overlap_witness:
  "Contains_Range ([\<lparr>RangeStart = 1, RangeEnd = 10\<rparr>, \<lparr>RangeStart = 5, RangeEnd = 20\<rparr>] ! 0) 5 \<and>
   Contains_Range ([\<lparr>RangeStart = 1, RangeEnd = 10\<rparr>, \<lparr>RangeStart = 5, RangeEnd = 20\<rparr>] ! 1) 5 \<and>
   checkRange [\<lparr>RangeStart = 1, RangeEnd = 10\<rparr>, \<lparr>RangeStart = 5, RangeEnd = 20\<rparr>]
      [[\<lparr>RangeStart = 30, RangeEnd = 40\<rparr>]]
     = Some (RangeOverlapError \<lparr>RangeStart = 1, RangeEnd = 10\<rparr> \<lparr>RangeStart = 5, RangeEnd = 20\<rparr>) \<and>
   checkRange [\<lparr>RangeStart = 1, RangeEnd = 10\<rparr>] [] = None \<and>
   checkRange_others [\<lparr>RangeStart = 1, RangeEnd = 10\<rparr>, \<lparr>RangeStart = 5, RangeEnd = 20\<rparr>]
      [[\<lparr>RangeStart = 30, RangeEnd = 40\<rparr>]] = None"
  using checkRange_overlap
      [of 0 1 "[\<lparr>RangeStart = 1, RangeEnd = 10\<rparr>, \<lparr>RangeStart = 5, RangeEnd = 20\<rparr>]" 5
        "[[\<lparr>RangeStart = 30, RangeEnd = 40\<rparr>]]" "\<lparr>RangeStart = 1, RangeEnd = 10\<rparr>"]
  by (simp add: eval_defs)

section \<open>Allocation check\<close>







section \<open>Selector check\<close>

subsection \<open>Global pools\<close>

lemma globalLoop_find:
  "globalLoop pool ps =
     map_option (\<lambda>p. DuplicateGlobalPoolError (Name p)) (find (\<lambda>p. Name p \<noteq> Name pool) ps)"
  by (induction ps) auto

text \<open>
  C3. For a pool marked global and a repository whose \<^verbatim>\<open>List\<close> succeeds: if the
  repository holds a pool marked global with another name, \<^verbatim>\<open>checkSelector\<close> fails with
  the duplicate-global-pool error naming such a pool; otherwise it returns no error. The
  result is the same whatever selector (priority, network, scope) the pool carries, and
  the only repository read is the one with the global filter: neither the self-scope check
  nor the cross-pool check runs.
\<close>

theorem checkSelector_global:
  assumes "isGlobalIPPool pool" and "listErr i = None"
  shows "((\<exists>p\<in>set (pools i). isGlobalIPPool p \<and> Name p \<noteq> Name pool) \<longrightarrow>
            (\<exists>p\<in>set (pools i). isGlobalIPPool p \<and> Name p \<noteq> Name pool \<and>
               fst (checkSelector i pool) = Some (DuplicateGlobalPoolError (Name p)))) \<and>
         (\<not> (\<exists>p\<in>set (pools i). isGlobalIPPool p \<and> Name p \<noteq> Name pool) \<longrightarrow>
            fst (checkSelector i pool) = None) \<and>
         checkSelector i (pool\<lparr>Spec := (Spec pool)\<lparr>Selector := sel\<rparr>\<rparr>) = checkSelector i pool \<and>
         snd (checkSelector i pool) = i\<lparr>reads := reads i @ [GlobalIPPoolSet]\<rparr>"
proof -
  let ?gs = "filter GlobalIPPool (pools i)"
  let ?other = "\<lambda>p::'a IPPool. Name p \<noteq> Name pool"
  have cs: "checkSelector i pool =
      (globalLoop pool ?gs, i\<lparr>reads := reads i @ [GlobalIPPoolSet]\<rparr>)"
    using assms by (simp add: checkSelector_def checkGlobalIPPool_ok)
  have a: "(\<exists>p\<in>set (pools i). isGlobalIPPool p \<and> Name p \<noteq> Name pool) \<longrightarrow>
            (\<exists>p\<in>set (pools i). isGlobalIPPool p \<and> Name p \<noteq> Name pool \<and>
               fst (checkSelector i pool) = Some (DuplicateGlobalPoolError (Name p)))"
  proof
    assume "\<exists>p\<in>set (pools i). isGlobalIPPool p \<and> Name p \<noteq> Name pool"
    then have "\<exists>p\<in>set ?gs. ?other p" by (auto simp: isGlobalIPPool_def)
    then obtain q where q: "find ?other ?gs = Some q"
      by (cases "find ?other ?gs") (auto simp: find_None_iff)
    then have "q \<in> set ?gs" "?other q"
      by (auto dest: find_Some_set)
    with q cs show "\<exists>p\<in>set (pools i). isGlobalIPPool p \<and> Name p \<noteq> Name pool \<and>
               fst (checkSelector i pool) = Some (DuplicateGlobalPoolError (Name p))"
      by (auto simp: globalLoop_find isGlobalIPPool_def)
  qed
  have b: "\<not> (\<exists>p\<in>set (pools i). isGlobalIPPool p \<and> Name p \<noteq> Name pool) \<longrightarrow>
            fst (checkSelector i pool) = None"
  proof
    assume "\<not> (\<exists>p\<in>set (pools i). isGlobalIPPool p \<and> Name p \<noteq> Name pool)"
    then have "find ?other ?gs = None"
      by (auto simp: find_None_iff isGlobalIPPool_def)
    with cs show "fst (checkSelector i pool) = None"
      by (simp add: globalLoop_find)
  qed
  have c: "checkSelector i (pool\<lparr>Spec := (Spec pool)\<lparr>Selector := sel\<rparr>\<rparr>) = checkSelector i pool"
  proof -
    have "globalLoop (pool\<lparr>Spec := (Spec pool)\<lparr>Selector := sel\<rparr>\<rparr>) ps = globalLoop pool ps"
      for ps by (induction ps) auto
    then show ?thesis
      using assms by (simp add: checkSelector_def checkGlobalIPPool_def isGlobalIPPool_def
          split: prod.splits sum.splits)
  qed
  from a b c cs show ?thesis by simp
qed

theorem checkSelector_global_witness:
  "isGlobalIPPool (example_pool ''G2'' True 0
      [\<lparr>Project = ''p1'', Namespace = [], GuestCluster = []\<rparr>] [(1, 10)] []) \<and>
   fst (checkSelector
          (example_cache
             [example_pool ''A'' False 0
                [\<lparr>Project = ''p1'', Namespace = [], GuestCluster = []\<rparr>] [(20, 30)] [],
              example_pool ''G1'' True 7 [] [(40, 50)] []])
          (example_pool ''G2'' True 0
             [\<lparr>Project = ''p1'', Namespace = [], GuestCluster = []\<rparr>] [(1, 10)] []))
     = Some (DuplicateGlobalPoolError ''G1'') \<and>
   fst (checkSelector
          (example_cache
             [example_pool ''A'' False 0
                [\<lparr>Project = ''p1'', Namespace = [], GuestCluster = []\<rparr>] [(20, 30)] [],
              example_pool ''G2'' True 7 [] [(40, 50)] []])
          (example_pool ''G2'' True 0
             [\<lparr>Project = ''p1'', Namespace = [], GuestCluster = []\<rparr>] [(1, 10)] []))
     = None"
  using checkSelector_global
      [of "example_pool ''G2'' True 0
             [\<lparr>Project = ''p1'', Namespace = [], GuestCluster = []\<rparr>] [(1, 10)] []"
        "example_cache
             [example_pool ''A'' False 0
                [\<lparr>Project = ''p1'', Namespace = [], GuestCluster = []\<rparr>] [(20, 30)] [],
              example_pool ''G1'' True 7 [] [(40, 50)] []]"]
    checkSelector_global
      [of "example_pool ''G2'' True 0
             [\<lparr>Project = ''p1'', Namespace = [], GuestCluster = []\<rparr>] [(1, 10)] []"
        "example_cache
             [example_pool ''A'' False 0
                [\<lparr>Project = ''p1'', Namespace = [], GuestCluster = []\<rparr>] [(20, 30)] [],
              example_pool ''G2'' True 7 [] [(40, 50)] []]"]
  by (simp add: example_defs isGlobalIPPool_def)

subsection \<open>Self-scope check\<close>

text \<open>
  With the Matcher as the spec words it, the selector built for the last scope entry has
  an empty scope list and the pool's own network, so it matches that entry: the loop
  returns no error only on an empty scope list.
\<close>

lemma selfLoop_None_iff: "selfLoop sel scope = None \<longleftrightarrow> scope = []"
proof (induction scope)
  case Nil
  then show ?case by simp
next
  case (Cons t rest)
  show ?case
  proof (cases rest)
    case Nil
    then show ?thesis by (simp add: Matches_def requirementOf_def)
  next
    case (Cons t' rest')
    with Cons.IH show ?thesis by (simp add: Let_def)
  qed
qed


subsection \<open>Cross-pool check\<close>

lemma othersLoop_nonzero:
  "Priority (Selector (Spec pool)) \<noteq> 0 \<Longrightarrow>
     othersLoop pool ps =
       map_option (\<lambda>q. DuplicatePriorityError (Name q))
         (find (\<lambda>q. Name q \<noteq> Name pool \<and> \<not> isGlobalIPPool q \<and>
                    Priority (Selector (Spec q)) = Priority (Selector (Spec pool))) ps)"
  by (induction ps) auto

lemma othersLoop_skip:
  "Priority (Selector (Spec p)) \<noteq> Priority (Selector (Spec pool)) \<Longrightarrow>
   Priority (Selector (Spec p)) \<noteq> 0 \<or> Priority (Selector (Spec pool)) \<noteq> 0 \<Longrightarrow>
     othersLoop pool (xs @ p # ys) = othersLoop pool (xs @ ys)"
  by (induction xs) (auto split: option.splits)

text \<open>
  C6, as the code has it. Let the repository list \<open>xs\<close>, then \<open>p\<close>, then \<open>ys\<close>, with \<open>p\<close>
  non-global and named differently from the pool under admission, and let \<^verbatim>\<open>List\<close>
  succeed. If the two priorities are equal and non-zero, the cross-pool check fails with
  the duplicate-priority error naming the first listed non-global pool of another name
  that has this priority, whatever the scopes are; this pool is \<open>p\<close> when no pool listed
  before \<open>p\<close> is such a pool. If the priorities differ and one of them is non-zero, \<open>p\<close>
  plays no part: the check returns what it returns on the repository without \<open>p\<close>.
\<close>

theorem duplicate_priority_names_first:
  assumes "listErr i = None" and "pools i = xs @ p # ys"
    and "Name p \<noteq> Name pool" and "\<not> isGlobalIPPool p"
  shows "(Priority (Selector (Spec p)) \<noteq> 0 \<and>
          Priority (Selector (Spec p)) = Priority (Selector (Spec pool)) \<longrightarrow>
            (\<exists>q. find (\<lambda>q. Name q \<noteq> Name pool \<and> \<not> isGlobalIPPool q \<and>
                           Priority (Selector (Spec q)) = Priority (Selector (Spec pool)))
                     (pools i) = Some q \<and>
                 fst (checkSelectorWithOthers i pool)
                   = Some (DuplicatePriorityError (Name q))) \<and>
            ((\<forall>q\<in>set xs. Name q = Name pool \<or> isGlobalIPPool q \<or>
                 Priority (Selector (Spec q)) \<noteq> Priority (Selector (Spec pool))) \<longrightarrow>
               fst (checkSelectorWithOthers i pool)
                 = Some (DuplicatePriorityError (Name p)))) \<and>
         (Priority (Selector (Spec p)) \<noteq> Priority (Selector (Spec pool)) \<and>
          (Priority (Selector (Spec p)) \<noteq> 0 \<or> Priority (Selector (Spec pool)) \<noteq> 0) \<longrightarrow>
            fst (checkSelectorWithOthers i pool) =
            fst (checkSelectorWithOthers (i\<lparr>pools := xs @ ys\<rparr>) pool))"
proof (intro conjI impI)
  let ?P = "\<lambda>q. Name q \<noteq> Name pool \<and> \<not> isGlobalIPPool q \<and>
                Priority (Selector (Spec q)) = Priority (Selector (Spec pool))"
  assume eq: "Priority (Selector (Spec p)) \<noteq> 0 \<and>
          Priority (Selector (Spec p)) = Priority (Selector (Spec pool))"
  then have nz: "Priority (Selector (Spec pool)) \<noteq> 0" by simp
  have res: "fst (checkSelectorWithOthers i pool) =
      map_option (\<lambda>q. DuplicatePriorityError (Name q)) (find ?P (pools i))"
    using assms(1) nz by (simp add: checkSelectorWithOthers_ok othersLoop_nonzero)
  from eq assms have "\<exists>q\<in>set (pools i). ?P q" by auto
  then obtain q where q: "find ?P (pools i) = Some q"
    by (cases "find ?P (pools i)") (auto simp: find_None_iff)
  with res show "\<exists>q. find ?P (pools i) = Some q \<and>
      fst (checkSelectorWithOthers i pool) = Some (DuplicatePriorityError (Name q))"
    by simp
  assume "\<forall>q\<in>set xs. Name q = Name pool \<or> isGlobalIPPool q \<or>
                 Priority (Selector (Spec q)) \<noteq> Priority (Selector (Spec pool))"
  then have "find ?P xs = None" by (auto simp: find_None_iff)
  with eq assms have "find ?P (pools i) = Some p"
    by (simp add: find_None_append)
  with res show "fst (checkSelectorWithOthers i pool) = Some (DuplicatePriorityError (Name p))"
    by simp
next
  assume "Priority (Selector (Spec p)) \<noteq> Priority (Selector (Spec pool)) \<and>
          (Priority (Selector (Spec p)) \<noteq> 0 \<or> Priority (Selector (Spec pool)) \<noteq> 0)"
  then have "othersLoop pool (xs @ p # ys) = othersLoop pool (xs @ ys)"
    by (intro othersLoop_skip) auto
  with assms(1,2) show "fst (checkSelectorWithOthers i pool) =
            fst (checkSelectorWithOthers (i\<lparr>pools := xs @ ys\<rparr>) pool)"
    by (simp add: checkSelectorWithOthers_ok)
qed

theorem duplicate_priority_names_first_witness:
  "fst (checkSelectorWithOthers
          (example_cache
             [example_pool ''Q'' False 0 [] [(20, 30)] [],
              example_pool ''P'' False 5
                [\<lparr>Project = ''p2'', Namespace = [], GuestCluster = []\<rparr>] [(40, 50)] []])
          (example_pool ''N'' False 5
             [\<lparr>Project = ''p1'', Namespace = [], GuestCluster = []\<rparr>] [(1, 10)] []))
     = Some (DuplicatePriorityError ''P'') \<and>
   fst (checkSelectorWithOthers
          (example_cache
             [example_pool ''P'' False 3
                [\<lparr>Project = ''p1'', Namespace = [], GuestCluster = []\<rparr>] [(40, 50)] []])
          (example_pool ''N'' False 0
             [\<lparr>Project = ''p1'', Namespace = [], GuestCluster = []\<rparr>] [(1, 10)] []))
     = None"
  using duplicate_priority_names_first
      [of "example_cache
             [example_pool ''Q'' False 0 [] [(20, 30)] [],
              example_pool ''P'' False 5
                [\<lparr>Project = ''p2'', Namespace = [], GuestCluster = []\<rparr>] [(40, 50)] []]"
        "[example_pool ''Q'' False 0 [] [(20, 30)] []]"
        "example_pool ''P'' False 5
                [\<lparr>Project = ''p2'', Namespace = [], GuestCluster = []\<rparr>] [(40, 50)] []"
        "[]"
        "example_pool ''N'' False 5
             [\<lparr>Project = ''p1'', Namespace = [], GuestCluster = []\<rparr>] [(1, 10)] []"]
    duplicate_priority_names_first
      [of "example_cache
             [example_pool ''P'' False 3
                [\<lparr>Project = ''p1'', Namespace = [], GuestCluster = []\<rparr>] [(40, 50)] []]"
        "[]"
        "example_pool ''P'' False 3
                [\<lparr>Project = ''p1'', Namespace = [], GuestCluster = []\<rparr>] [(40, 50)] []"
        "[]"
        "example_pool ''N'' False 0
             [\<lparr>Project = ''p1'', Namespace = [], GuestCluster = []\<rparr>] [(1, 10)] []"]
  by (simp add: eval_defs)

text \<open>
  The error does not name every stored pool of the same priority: with \<open>P1\<close> and \<open>P2\<close>
  listed in this order, both non-global and of priority 7, and a pool of priority 7 under
  admission, the error names \<open>P1\<close>, not \<open>P2\<close>.
\<close>

theorem duplicate_priority_counterexample:
  "example_pool ''P2'' False 7 [] [(40, 50)] []
     \<in> set (pools (example_cache [example_pool ''P1'' False 7 [] [(20, 30)] [],
                                  example_pool ''P2'' False 7 [] [(40, 50)] []])) \<and>
   Name (example_pool ''P2'' False 7 [] [(40, 50)] [])
     \<noteq> Name (example_pool ''N'' False 7 [] [(1, 10)] []) \<and>
   \<not> isGlobalIPPool (example_pool ''P2'' False 7 [] [(40, 50)] []) \<and>
   \<not> isGlobalIPPool (example_pool ''N'' False 7 [] [(1, 10)] []) \<and>
   Priority (Selector (Spec (example_pool ''P2'' False 7 [] [(40, 50)] []))) \<noteq> 0 \<and>
   Priority (Selector (Spec (example_pool ''P2'' False 7 [] [(40, 50)] [])))
     = Priority (Selector (Spec (example_pool ''N'' False 7 [] [(1, 10)] []))) \<and>
   fst (checkSelectorWithOthers
          (example_cache [example_pool ''P1'' False 7 [] [(20, 30)] [],
                          example_pool ''P2'' False 7 [] [(40, 50)] []])
          (example_pool ''N'' False 7 [] [(1, 10)] []))
     = Some (DuplicatePriorityError ''P1'') \<and>
   fst (checkSelectorWithOthers
          (example_cache [example_pool ''P1'' False 7 [] [(20, 30)] [],
                          example_pool ''P2'' False 7 [] [(40, 50)] []])
          (example_pool ''N'' False 7 [] [(1, 10)] []))
     \<noteq> Some (DuplicatePriorityError (Name (example_pool ''P2'' False 7 [] [(40, 50)] [])))"
  by (simp add: eval_defs)


section \<open>Entry points\<close>

text \<open>
  C9. A pool with no ranges is rejected by \<^verbatim>\<open>Create\<close>, and by \<^verbatim>\<open>Update\<close> when its
  deletion is not requested, with the empty-range error, and the repository comes back
  with no read made: no later check has run. On \<^verbatim>\<open>Update\<close> of a pool with ranges, once
  the ranges are converted and the other pools' ranges are read, an error of
  \<^verbatim>\<open>checkRange\<close> is returned whatever the later checks would say; otherwise an error of
  \<^verbatim>\<open>checkAllocated\<close> is returned whatever the selector check would say (in both cases
  the repository has only the read of the other pools' ranges); otherwise the result is
  that of \<^verbatim>\<open>checkSelector\<close>.
\<close>

theorem empty_ranges_and_check_order:
  "(Ranges (Spec pool) = [] \<longrightarrow>
      Create conv i req (IPPoolObject pool)
        = (Some (CreateError (Name pool) EmptyRangeError), i)) \<and>
   (Ranges (Spec pool) = [] \<and> DeletionTimestamp pool = None \<longrightarrow>
      Update conv parseIP i req oldObj (IPPoolObject pool)
        = (Some (UpdateError (Name pool) EmptyRangeError), i)) \<and>
   (DeletionTimestamp pool = None \<and> Ranges (Spec pool) \<noteq> [] \<and>
    conv (Ranges (Spec pool)) = Inr rs \<and>
    getOtherPoolsRanges conv i (Name pool) = (Inr others, i1) \<longrightarrow>
      (\<forall>e. checkRange rs others = Some e \<longrightarrow>
           Update conv parseIP i req oldObj (IPPoolObject pool)
             = (Some (UpdateError (Name pool) e), i1)) \<and>
      (\<forall>e. checkRange rs others = None \<and>
           checkAllocated parseIP rs (Allocated (Status pool)) = Some e \<longrightarrow>
           Update conv parseIP i req oldObj (IPPoolObject pool)
             = (Some (UpdateError (Name pool) e), i1)) \<and>
      (checkRange rs others = None \<and>
       checkAllocated parseIP rs (Allocated (Status pool)) = None \<longrightarrow>
           Update conv parseIP i req oldObj (IPPoolObject pool)
             = (map_option (UpdateError (Name pool)) (fst (checkSelector i1 pool)),
                snd (checkSelector i1 pool))))"
  by (auto split: option.splits prod.splits sum.splits)

theorem empty_ranges_and_check_order_witness:
  "Create example_conv (example_cache [example_pool ''S'' False 5 [] [(100, 200)] []]) ()
      (IPPoolObject (example_pool ''N'' False 5 [] [] []))
     = (Some (CreateError ''N'' EmptyRangeError),
        example_cache [example_pool ''S'' False 5 [] [(100, 200)] []]) \<and>
   Update example_conv example_parseIP
      (example_cache [example_pool ''S'' False 5 [] [(100, 200)] []]) () OtherObject
      (IPPoolObject (example_pool ''N'' False 5 [] [] [(''bad'', ''lb1'')]))
     = (Some (UpdateError ''N'' EmptyRangeError),
        example_cache [example_pool ''S'' False 5 [] [(100, 200)] []]) \<and>
   Update example_conv example_parseIP
      (example_cache [example_pool ''S'' False 5 [] [(100, 200)] []]) () OtherObject
      (IPPoolObject (example_pool ''N'' False 5 [] [(1, 10), (5, 20)] [(''bad'', ''lb1'')]))
     = (Some (UpdateError ''N''
                (RangeOverlapError \<lparr>RangeStart = 1, RangeEnd = 10\<rparr>
                                   \<lparr>RangeStart = 5, RangeEnd = 20\<rparr>)),
        (example_cache [example_pool ''S'' False 5 [] [(100, 200)] []])
          \<lparr>reads := [Everything]\<rparr>) \<and>
   Update example_conv example_parseIP
      (example_cache [example_pool ''S'' False 5 [] [(100, 200)] []]) () OtherObject
      (IPPoolObject (example_pool ''N'' False 5 [] [(1, 10)] [(''bad'', ''lb1'')]))
     = (Some (UpdateError ''N'' (InvalidAddressError ''bad'')),
        (example_cache [example_pool ''S'' False 5 [] [(100, 200)] []])
          \<lparr>reads := [Everything]\<rparr>) \<and>
   Update example_conv example_parseIP
      (example_cache [example_pool ''S'' False 5 [] [(100, 200)] []]) () OtherObject
      (IPPoolObject (example_pool ''N'' False 5 [] [(1, 10)] []))
     = (Some (UpdateError ''N'' (DuplicatePriorityError ''S'')),
        (example_cache [example_pool ''S'' False 5 [] [(100, 200)] []])
          \<lparr>reads := [Everything, Everything]\<rparr>)"
  using empty_ranges_and_check_order
      [of "example_pool ''N'' False 5 [] [] [(''bad'', ''lb1'')]" example_conv
        "example_cache [example_pool ''S'' False 5 [] [(100, 200)] []]" "()"
        example_parseIP OtherObject]
    empty_ranges_and_check_order
      [of "example_pool ''N'' False 5 [] [(1, 10), (5, 20)] [(''bad'', ''lb1'')]" example_conv
        "example_cache [example_pool ''S'' False 5 [] [(100, 200)] []]" "()"
        example_parseIP OtherObject
        "[\<lparr>RangeStart = 1, RangeEnd = 10\<rparr>, \<lparr>RangeStart = 5, RangeEnd = 20\<rparr>]"
        "[[\<lparr>RangeStart = 100, RangeEnd = 200\<rparr>]]"
        "(example_cache [example_pool ''S'' False 5 [] [(100, 200)] []])
           \<lparr>reads := [Everything]\<rparr>"]
    empty_ranges_and_check_order
      [of "example_pool ''N'' False 5 [] [(1, 10)] [(''bad'', ''lb1'')]" example_conv
        "example_cache [example_pool ''S'' False 5 [] [(100, 200)] []]" "()"
        example_parseIP OtherObject
        "[\<lparr>RangeStart = 1, RangeEnd = 10\<rparr>]"
        "[[\<lparr>RangeStart = 100, RangeEnd = 200\<rparr>]]"
        "(example_cache [example_pool ''S'' False 5 [] [(100, 200)] []])
           \<lparr>reads := [Everything]\<rparr>"]
    empty_ranges_and_check_order
      [of "example_pool ''N'' False 5 [] [(1, 10)] []" example_conv
        "example_cache [example_pool ''S'' False 5 [] [(100, 200)] []]" "()"
        example_parseIP OtherObject
        "[\<lparr>RangeStart = 1, RangeEnd = 10\<rparr>]"
        "[[\<lparr>RangeStart = 100, RangeEnd = 200\<rparr>]]"
        "(example_cache [example_pool ''S'' False 5 [] [(100, 200)] []])
           \<lparr>reads := [Everything]\<rparr>"]
  by (simp add: eval_defs)

text \<open>
  C8. For every pool whose deletion has been requested (deletion timestamp set),
  \<^verbatim>\<open>Update\<close> returns no error, whatever the ranges, the allocated addresses, the selector,
  the converter, the parser and the repository are, and it returns the repository with its
  read log unchanged: no \<^verbatim>\<open>List\<close> call is made.
\<close>

theorem Update_deleting_accepts:
  "DeletionTimestamp pool \<noteq> None \<Longrightarrow>
     Update conv parseIP i req oldObj (IPPoolObject pool) = (None, i)"
  by simp

theorem Update_deleting_accepts_witness:
  "DeletionTimestamp
     ((example_pool ''A'' False 0 [] [] [(''bad'', ''lb1'')])\<lparr>DeletionTimestamp := Some 1\<rparr>)
     \<noteq> None \<and>
   Update example_conv example_parseIP
      \<lparr>pools = [example_pool ''B'' False 0 [] [(1, 10)] []], listErr = Some ''down'',
       reads = []\<rparr>
      () OtherObject
      (IPPoolObject
         ((example_pool ''A'' False 0 [] [] [(''bad'', ''lb1'')])\<lparr>DeletionTimestamp := Some 1\<rparr>))
    = (None,
       \<lparr>pools = [example_pool ''B'' False 0 [] [(1, 10)] []], listErr = Some ''down'',
        reads = []\<rparr>)"
  using Update_deleting_accepts
      [of "(example_pool ''A'' False 0 [] [] [(''bad'', ''lb1'')])\<lparr>DeletionTimestamp := Some 1\<rparr>"
        example_conv example_parseIP
        "\<lparr>pools = [example_pool ''B'' False 0 [] [(1, 10)] []], listErr = Some ''down'',
          reads = []\<rparr>"
        "()" OtherObject]
  by (simp add: example_pool_def)

text \<open>
  C10. The verdict of \<^verbatim>\<open>Update\<close> does not depend on the old object: for any two old
  objects, the same new object and the same repository, the two calls return the same
  result.
\<close>

theorem Update_ignores_old:
  "Update conv parseIP i req o1 n = Update conv parseIP i req o2 n"
  by (cases n) simp_all

text \<open>
  C7. For every pool, \<^verbatim>\<open>Delete\<close> returns an error if and only if the pool's allocated
  mapping is non-empty: with at least one allocation it fails with the
  non-empty-pool-deletion error, with none it succeeds, whatever the ranges and the
  selector of the pool are.
\<close>

theorem Delete_iff_allocated:
  "(Delete req (IPPoolObject pool) \<noteq> None \<longleftrightarrow> Allocated (Status pool) \<noteq> []) \<and>
   (Allocated (Status pool) \<noteq> [] \<longrightarrow>
      Delete req (IPPoolObject pool) = Some NonEmptyPoolDeletionError) \<and>
   (Allocated (Status pool) = [] \<longrightarrow> Delete req (IPPoolObject pool) = None) \<and>
   Delete req (IPPoolObject (pool\<lparr>Spec := sp\<rparr>)) = Delete req (IPPoolObject pool)"
  by simp

theorem Delete_iff_allocated_witness:
  "Allocated (Status (example_pool ''A'' False 0 [] [(1, 10)] [(''10.0.0.5'', ''lb1'')])) \<noteq> [] \<and>
   Delete () (IPPoolObject (example_pool ''A'' False 0 [] [(1, 10)] [(''10.0.0.5'', ''lb1'')]))
     = Some NonEmptyPoolDeletionError \<and>
   Allocated (Status (example_pool ''A'' False 0 [] [(1, 10)] [])) = [] \<and>
   Delete () (IPPoolObject (example_pool ''A'' False 0 [] [(1, 10)] [])) = None"
  using Delete_iff_allocated
      [of "()" "example_pool ''A'' False 0 [] [(1, 10)] [(''10.0.0.5'', ''lb1'')]"]
    Delete_iff_allocated [of "()" "example_pool ''A'' False 0 [] [(1, 10)] []"]
  by (simp add: example_pool_def)

end
